theory Spec2Isabelle
  imports Main
begin

section \<open>Regular expressions of the validators\<close>

text \<open>
  The two syntactic validators of the SDK are anchored regular expressions
  (\<^verbatim>\<open>/^...$/\<close>, no flags) applied with \<^verbatim>\<open>RegExp.prototype.test\<close>.  The
  fragment they use is modelled directly: a character range \<^verbatim>\<open>[a-b]\<close>, a literal
  character, concatenation and the bounded repetition \<^verbatim>\<open>r{m,n}\<close> (\<^verbatim>\<open>r{n}\<close> is
  \<^verbatim>\<open>r{n,n}\<close>).  Strings are \<^typ>\<open>string\<close>; every class of the two patterns lies
  in ASCII, so a character outside ASCII is rejected whatever its encoding.
\<close>

datatype regex =
    Range char char
  | Lit char
  | Seq regex regex
  | Repeat regex nat nat

definition in_range :: "char \<Rightarrow> char \<Rightarrow> char \<Rightarrow> bool" where
  "in_range lo hi c \<longleftrightarrow> (of_char lo :: nat) \<le> of_char c \<and> (of_char c :: nat) \<le> of_char hi"

text \<open>
  \<open>consume r s\<close> lists what is left of \<open>s\<close> after each way of matching \<open>r\<close> against a
  prefix of \<open>s\<close>.  A repetition runs \<open>r\<close> once more on every remainder, \<open>k\<close> times
  for each \<open>k\<close> from \<open>m\<close> to \<open>n\<close>.
\<close>

fun consume :: "regex \<Rightarrow> string \<Rightarrow> string list" where
  "consume (Range lo hi) s =
     (case s of [] \<Rightarrow> [] | c # cs \<Rightarrow> if in_range lo hi c then [cs] else [])"
| "consume (Lit a) s =
     (case s of [] \<Rightarrow> [] | c # cs \<Rightarrow> if c = a then [cs] else [])"
| "consume (Seq r1 r2) s = concat (map (consume r2) (consume r1 s))"
| "consume (Repeat r m n) s =
     concat (map (\<lambda>k. ((\<lambda>ss. concat (map (consume r) ss)) ^^ k) [s]) [m..<Suc n])"

text \<open>\<^verbatim>\<open>/^r$/.test(s)\<close>: some way of matching \<open>r\<close> uses up the whole string.\<close>

definition test_anchored :: "regex \<Rightarrow> string \<Rightarrow> bool" where
  "test_anchored r s \<longleftrightarrow> [] \<in> set (consume r s)"

text \<open>
  \<^verbatim>\<open>/^[1-9][0-9]{0,3}[1-9][0-9]{9}$/\<close> (types/index.ts).  A string the pattern
  accepts is all ASCII digits, so its \<^verbatim>\<open>length\<close> is the length of the list.
\<close>

definition phonePattern :: regex where
  "phonePattern =
     Seq (Range CHR ''1'' CHR ''9'')
       (Seq (Repeat (Range CHR ''0'' CHR ''9'') 0 3)
         (Seq (Range CHR ''1'' CHR ''9'')
              (Repeat (Range CHR ''0'' CHR ''9'') 9 9)))"

definition validatePhoneNumber :: "string \<Rightarrow> bool" where
  "validatePhoneNumber phone \<longleftrightarrow> test_anchored phonePattern phone \<and> length phone \<le> 15"

text \<open>\<^verbatim>\<open>/^[a-z]{2}_[A-Z]{2}$/\<close> (services/template-service.ts)\<close>

definition langCodePattern :: regex where
  "langCodePattern =
     Seq (Repeat (Range CHR ''a'' CHR ''z'') 2 2)
       (Seq (Lit CHR ''_'')
            (Repeat (Range CHR ''A'' CHR ''Z'') 2 2))"

definition validateLanguageCode :: "string \<Rightarrow> bool" where
  "validateLanguageCode langCode \<longleftrightarrow> test_anchored langCodePattern langCode"


section \<open>Tags and errors\<close>

text \<open>
  The string-literal union types of the source are datatypes.  Every
  \<^verbatim>\<open>throw new Error(...)\<close> of the validation and formatting code is one value of
  \<open>error\<close>; \<open>message\<close> gives the text the source puts into the exception.
\<close>

datatype TemplateComponentType = header | body | footer | button

datatype TemplateParameterType = text_param | image_param | video_param | document_param

datatype ButtonSubType = quick_reply | phone_number | url | copy_code

datatype MediaType = image | document | video | audio

datatype combination = QuickReplyWithOther | CopyCodeWithPhoneOrUrl

datatype count_violation = NoButtons | MoreThanThree

datatype error =
    InvalidFromNumber string
  | InvalidToNumber string
  | InvalidLanguageCode string
  | MissingContentLocator MediaType
  | EmptyComponentParameters TemplateComponentType
  | TooManyButtons ButtonSubType
  | IncompatibleButtonTypes combination
  | DuplicateButtonIndex
  | DuplicateButtonText
  | InteractiveButtonCountOutOfRange count_violation
  | DuplicateButtonId
  | DuplicateButtonTitle

fun componentTypeName :: "TemplateComponentType \<Rightarrow> string" where
  "componentTypeName header = ''header''"
| "componentTypeName body = ''body''"
| "componentTypeName footer = ''footer''"
| "componentTypeName button = ''button''"

fun capitalized :: "MediaType \<Rightarrow> string" where
  "capitalized image = ''Image''"
| "capitalized document = ''Document''"
| "capitalized video = ''Video''"
| "capitalized audio = ''Audio''"

definition quote :: string where
  "quote = [CHR 0x27]"

fun message :: "error \<Rightarrow> string" where
  "message (InvalidFromNumber v) =
     ''Invalid '' @ quote @ ''from'' @ quote @ '' phone number format: '' @ v"
| "message (InvalidToNumber v) =
     ''Invalid '' @ quote @ ''to'' @ quote @ '' phone number format: '' @ v"
| "message (InvalidLanguageCode v) =
     ''Invalid language code format: '' @ v @ ''. Expected format: en_US, es_ES, fr_FR, etc.''"
| "message (MissingContentLocator t) =
     capitalized t @ '' message must have either link or id''"
| "message (EmptyComponentParameters t) =
     componentTypeName t @ '' component must have parameters''"
| "message (TooManyButtons quick_reply) = ''Maximum 10 quick reply buttons allowed''"
| "message (TooManyButtons phone_number) = ''Maximum 1 phone number button allowed''"
| "message (TooManyButtons url) = ''Maximum 1 URL button allowed''"
| "message (TooManyButtons copy_code) = ''Maximum 1 copy code button allowed''"
| "message (IncompatibleButtonTypes QuickReplyWithOther) =
     ''Quick reply buttons cannot be combined with other button types''"
| "message (IncompatibleButtonTypes CopyCodeWithPhoneOrUrl) =
     ''Copy code buttons cannot be combined with phone number or URL buttons''"
| "message DuplicateButtonIndex = ''Button indices must be unique''"
| "message DuplicateButtonText = ''Button texts must be unique''"
| "message (InteractiveButtonCountOutOfRange NoButtons) =
     ''Interactive message must have at least one button''"
| "message (InteractiveButtonCountOutOfRange MoreThanThree) =
     ''Interactive message can have maximum 3 buttons''"
| "message DuplicateButtonId = ''Interactive message buttons must have unique IDs''"
| "message DuplicateButtonTitle = ''Interactive message buttons must have unique titles''"


section \<open>Template components and their validation (services/template-service.ts)\<close>

text \<open>
  Optional fields (\<^verbatim>\<open>field?: T\<close>) are \<open>option\<close>s, \<open>None\<close> standing for
  \<^verbatim>\<open>undefined\<close>.  A button index is an \<open>int\<close>: on integer values the equality a
  JavaScript \<^verbatim>\<open>Set\<close> uses is plain equality, and \<^verbatim>\<open>undefined\<close> is equal to itself.
\<close>

record MediaRef =
  link :: "string option"
  media_id :: "string option"

record TemplateParameter =
  param_type :: TemplateParameterType
  param_text :: "string option"
  param_image :: "MediaRef option"
  param_video :: "MediaRef option"
  param_document :: "MediaRef option"

record TemplateComponent =
  component_type :: TemplateComponentType
  parameters :: "TemplateParameter list option"
  sub_type :: "ButtonSubType option"
  index :: "int option"

text \<open>\<^verbatim>\<open>btn.parameters?.[0]?.text\<close>\<close>

definition firstParameterText :: "TemplateComponent \<Rightarrow> string option" where
  "firstParameterText btn =
     (case parameters btn of
        None \<Rightarrow> None
      | Some ps \<Rightarrow> (case ps of [] \<Rightarrow> None | p # _ \<Rightarrow> param_text p))"

definition validateButtonComponents :: "TemplateComponent list \<Rightarrow> error + unit" where
  "validateButtonComponents buttonComponents =
     (let quickReplyButtons = filter (\<lambda>btn. sub_type btn = Some quick_reply) buttonComponents;
          phoneNumberButtons = filter (\<lambda>btn. sub_type btn = Some phone_number) buttonComponents;
          urlButtons = filter (\<lambda>btn. sub_type btn = Some url) buttonComponents;
          copyCodeButtons = filter (\<lambda>btn. sub_type btn = Some copy_code) buttonComponents
      in
      if length quickReplyButtons > 10 then Inl (TooManyButtons quick_reply)
      else if length phoneNumberButtons > 1 then Inl (TooManyButtons phone_number)
      else if length urlButtons > 1 then Inl (TooManyButtons url)
      else if length copyCodeButtons > 1 then Inl (TooManyButtons copy_code)
      else
        let hasQuickReply = length quickReplyButtons > 0;
            hasPhoneOrUrl = (length phoneNumberButtons > 0 \<or> length urlButtons > 0);
            hasCopyCode = length copyCodeButtons > 0
        in
        if hasQuickReply \<and> (hasPhoneOrUrl \<or> hasCopyCode)
          then Inl (IncompatibleButtonTypes QuickReplyWithOther)
        else if hasCopyCode \<and> hasPhoneOrUrl
          then Inl (IncompatibleButtonTypes CopyCodeWithPhoneOrUrl)
        else
          let indices = map index buttonComponents in
          if card (set indices) \<noteq> length indices then Inl DuplicateButtonIndex
          else
            let buttonTexts = map firstParameterText buttonComponents in
            if card (set buttonTexts) \<noteq> length buttonTexts then Inl DuplicateButtonText
            else Inr ())"

text \<open>
  The \<^verbatim>\<open>for\<close> loop of \<^verbatim>\<open>validateTemplateComponents\<close>: the first component that is
  not a button and has no parameters (\<^verbatim>\<open>undefined\<close> or an empty array) throws.
\<close>

fun requireParameters :: "TemplateComponent list \<Rightarrow> error + unit" where
  "requireParameters [] = Inr ()"
| "requireParameters (component # rest) =
     (if component_type component \<noteq> button \<and>
         (case parameters component of None \<Rightarrow> True | Some ps \<Rightarrow> length ps = 0)
      then Inl (EmptyComponentParameters (component_type component))
      else requireParameters rest)"

definition validateTemplateComponents :: "TemplateComponent list \<Rightarrow> error + unit" where
  "validateTemplateComponents components =
     (let buttonComponents = filter (\<lambda>comp. component_type comp = button) components in
      case (if length buttonComponents > 0 then validateButtonComponents buttonComponents
            else Inr ()) of
        Inl e \<Rightarrow> Inl e
      | Inr _ \<Rightarrow> requireParameters components)"

text \<open>The component constructors of the service.\<close>

definition textParameter :: "string \<Rightarrow> TemplateParameter" where
  "textParameter t =
     \<lparr>param_type = text_param, param_text = Some t, param_image = None,
      param_video = None, param_document = None\<rparr>"

definition createHeaderTextComponent :: "string \<Rightarrow> TemplateComponent" where
  "createHeaderTextComponent t =
     \<lparr>component_type = header, parameters = Some [textParameter t],
      sub_type = None, index = None\<rparr>"

definition createBodyComponent :: "string list \<Rightarrow> TemplateComponent" where
  "createBodyComponent textParameters =
     \<lparr>component_type = body, parameters = Some (map textParameter textParameters),
      sub_type = None, index = None\<rparr>"

definition createFooterComponent :: "string list \<Rightarrow> TemplateComponent" where
  "createFooterComponent textParameters =
     \<lparr>component_type = footer, parameters = Some (map textParameter textParameters),
      sub_type = None, index = None\<rparr>"

definition createQuickReplyButtonComponent :: "int \<Rightarrow> string \<Rightarrow> TemplateComponent" where
  "createQuickReplyButtonComponent i t =
     \<lparr>component_type = button, parameters = Some [textParameter t],
      sub_type = Some quick_reply, index = Some i\<rparr>"

definition createPhoneNumberButtonComponent :: "int \<Rightarrow> string \<Rightarrow> TemplateComponent" where
  "createPhoneNumberButtonComponent i phoneNumber =
     \<lparr>component_type = button, parameters = Some [textParameter phoneNumber],
      sub_type = Some phone_number, index = Some i\<rparr>"

definition createUrlButtonComponent :: "int \<Rightarrow> string \<Rightarrow> TemplateComponent" where
  "createUrlButtonComponent i u =
     \<lparr>component_type = button, parameters = Some [textParameter u],
      sub_type = Some url, index = Some i\<rparr>"

definition createCopyCodeButtonComponent :: "int \<Rightarrow> string \<Rightarrow> TemplateComponent" where
  "createCopyCodeButtonComponent i code =
     \<lparr>component_type = button, parameters = Some [textParameter code],
      sub_type = Some copy_code, index = Some i\<rparr>"

text \<open>
  \<^verbatim>\<open>sendTemplateMessage\<close>.  The configured sender (\<^verbatim>\<open>this.sdk.getFromNumber()\<close>) is
  a parameter.  The result is \<open>Inl\<close> of the error thrown, or \<open>Inr\<close> of the message
  handed to \<^verbatim>\<open>this.post\<close>: the transport is called exactly when the result is
  \<open>Inr\<close>.  The per-call request options do not take part in validation and are
  left out.  An array is truthy even when empty, so only absent components skip
  the validation.
\<close>

record TemplateMessagePayload =
  payload_to :: string
  templateName :: string
  langCode :: string
  components :: "TemplateComponent list option"

record TemplateMessage =
  template_from :: string
  template_to :: string
  template_name :: string
  lang_code :: string
  template_components :: "TemplateComponent list option"

definition sendTemplateMessage :: "string \<Rightarrow> TemplateMessagePayload \<Rightarrow> error + TemplateMessage" where
  "sendTemplateMessage fromNumber payloadData =
     (if \<not> validatePhoneNumber fromNumber then Inl (InvalidFromNumber fromNumber)
      else if \<not> validatePhoneNumber (payload_to payloadData)
        then Inl (InvalidToNumber (payload_to payloadData))
      else if \<not> validateLanguageCode (langCode payloadData)
        then Inl (InvalidLanguageCode (langCode payloadData))
      else
        case (case components payloadData of
                None \<Rightarrow> Inr ()
              | Some cs \<Rightarrow> validateTemplateComponents cs) of
          Inl e \<Rightarrow> Inl e
        | Inr _ \<Rightarrow>
            Inr \<lparr>template_from = fromNumber,
                 template_to = payload_to payloadData,
                 template_name = templateName payloadData,
                 lang_code = langCode payloadData,
                 template_components = components payloadData\<rparr>)"


section \<open>Messages and the message formatter (services/whatsapp-service.ts)\<close>

text \<open>
  The formatted message is an untyped object in the source; it is a \<open>json\<close> value
  here, an object being the list of its properties in insertion order.  A property
  assigned \<^verbatim>\<open>undefined\<close> is present with the value \<open>JUndefined\<close>.
\<close>

datatype json =
    JUndefined
  | JBool bool
  | JStr string
  | JArr "json list"
  | JObj "(string \<times> json) list"

definition optional :: "string option \<Rightarrow> json" where
  "optional v = (case v of None \<Rightarrow> JUndefined | Some s \<Rightarrow> JStr s)"

text \<open>Truthiness of an optional string: \<^verbatim>\<open>undefined\<close> and \<^verbatim>\<open>""\<close> are falsy.\<close>

definition truthy :: "string option \<Rightarrow> bool" where
  "truthy v = (case v of None \<Rightarrow> False | Some s \<Rightarrow> s \<noteq> [])"

record TextData =
  text_body :: string
  preview_url :: "bool option"

record ImageData =
  image_link :: "string option"
  image_id :: "string option"
  image_caption :: "string option"

record DocumentData =
  document_link :: "string option"
  document_id :: "string option"
  document_filename :: string
  document_caption :: "string option"

record VideoData =
  video_link :: "string option"
  video_id :: "string option"
  video_caption :: string

record AudioData =
  audio_link :: "string option"
  audio_id :: "string option"

datatype MessageContent =
    TextMessage TextData
  | ImageMessage ImageData
  | DocumentMessage DocumentData
  | VideoMessage VideoData
  | AudioMessage AudioData
  | InteractiveMessage json

record WhatsAppMessage =
  message_from :: string
  message_to :: string
  content :: MessageContent

fun messageType :: "MessageContent \<Rightarrow> string" where
  "messageType (TextMessage _) = ''text''"
| "messageType (ImageMessage _) = ''image''"
| "messageType (DocumentMessage _) = ''document''"
| "messageType (VideoMessage _) = ''video''"
| "messageType (AudioMessage _) = ''audio''"
| "messageType (InteractiveMessage _) = ''interactive''"

text \<open>
  \<^verbatim>\<open>sendMessage\<close>: \<open>Inl\<close> of the error thrown, or \<open>Inr\<close> of the body passed to
  \<^verbatim>\<open>this.post\<close>.
\<close>

definition sendMessage :: "WhatsAppMessage \<Rightarrow> error + json" where
  "sendMessage msg =
     (if \<not> validatePhoneNumber (message_from msg) then Inl (InvalidFromNumber (message_from msg))
      else if \<not> validatePhoneNumber (message_to msg) then Inl (InvalidToNumber (message_to msg))
      else
        let formattedMessage =
              [(''from'', JStr (message_from msg)),
               (''To'', JStr (message_to msg)),
               (''type'', JStr (messageType (content msg)))]
        in
        case content msg of
          TextMessage t \<Rightarrow>
            Inr (JObj (formattedMessage @
              [(''text'', JObj [(''body'', JStr (text_body t)),
                                (''preview_url'',
                                 JBool (case preview_url t of None \<Rightarrow> False | Some b \<Rightarrow> b))])]))
        | ImageMessage i \<Rightarrow>
            (let imageData = [(''caption'', optional (image_caption i))] in
             if truthy (image_link i)
               then Inr (JObj (formattedMessage @
                      [(''image'', JObj (imageData @ [(''link'', optional (image_link i))]))]))
             else if truthy (image_id i)
               then Inr (JObj (formattedMessage @
                      [(''image'', JObj (imageData @ [(''id'', optional (image_id i))]))]))
             else Inl (MissingContentLocator image))
        | DocumentMessage d \<Rightarrow>
            (let documentData = [(''filename'', JStr (document_filename d)),
                                 (''caption'', optional (document_caption d))] in
             if truthy (document_link d)
               then Inr (JObj (formattedMessage @
                      [(''document'', JObj (documentData @ [(''link'', optional (document_link d))]))]))
             else if truthy (document_id d)
               then Inr (JObj (formattedMessage @
                      [(''document'', JObj (documentData @ [(''id'', optional (document_id d))]))]))
             else Inl (MissingContentLocator document))
        | VideoMessage v \<Rightarrow>
            (let videoData = [(''caption'', JStr (video_caption v))] in
             if truthy (video_link v)
               then Inr (JObj (formattedMessage @
                      [(''video'', JObj (videoData @ [(''link'', optional (video_link v))]))]))
             else if truthy (video_id v)
               then Inr (JObj (formattedMessage @
                      [(''video'', JObj (videoData @ [(''id'', optional (video_id v))]))]))
             else Inl (MissingContentLocator video))
        | AudioMessage a \<Rightarrow>
            (let audioData = [] in
             if truthy (audio_link a)
               then Inr (JObj (formattedMessage @
                      [(''audio'', JObj (audioData @ [(''link'', optional (audio_link a))]))]))
             else if truthy (audio_id a)
               then Inr (JObj (formattedMessage @
                      [(''audio'', JObj (audioData @ [(''id'', optional (audio_id a))]))]))
             else Inl (MissingContentLocator audio))
        | InteractiveMessage interactive \<Rightarrow>
            Inr (JObj (formattedMessage @ [(''interactive'', interactive)])))"

record TextPayload =
  text_to :: string
  text_content :: string
  previewUrl :: "bool option"

definition sendTextMessage :: "string \<Rightarrow> TextPayload \<Rightarrow> error + json" where
  "sendTextMessage fromNumber payloadData =
     sendMessage
       \<lparr>message_from = fromNumber,
        message_to = text_to payloadData,
        content = TextMessage
          \<lparr>text_body = text_content payloadData,
           preview_url = Some (case previewUrl payloadData of None \<Rightarrow> False | Some b \<Rightarrow> b)\<rparr>\<rparr>"

text \<open>\<^verbatim>\<open>validateInteractiveButtons\<close> (types/index.ts)\<close>

record ReplyButton =
  button_id :: string
  button_title :: string

definition validateInteractiveButtons :: "ReplyButton list \<Rightarrow> error + unit" where
  "validateInteractiveButtons buttons =
     (if length buttons = 0 then Inl (InteractiveButtonCountOutOfRange NoButtons)
      else if length buttons > 3 then Inl (InteractiveButtonCountOutOfRange MoreThanThree)
      else
        let ids = map button_id buttons in
        if card (set ids) \<noteq> length ids then Inl DuplicateButtonId
        else
          let titles = map button_title buttons in
          if card (set titles) \<noteq> length titles then Inl DuplicateButtonTitle
          else Inr ())"

record InteractivePayload =
  interactive_to :: string
  bodyText :: string
  buttons :: "ReplyButton list"
  headerText :: "string option"
  footerText :: "string option"

definition replyButton :: "ReplyButton \<Rightarrow> json" where
  "replyButton b =
     JObj [(''type'', JStr ''reply''),
           (''reply'', JObj [(''id'', JStr (button_id b)), (''title'', JStr (button_title b))])]"

definition sendInteractiveMessage :: "string \<Rightarrow> InteractivePayload \<Rightarrow> error + json" where
  "sendInteractiveMessage fromNumber payloadData =
     (case validateInteractiveButtons (buttons payloadData) of
        Inl e \<Rightarrow> Inl e
      | Inr _ \<Rightarrow>
          let interactive =
                [(''type'', JStr ''button''),
                 (''body'', JObj [(''text'', JStr (bodyText payloadData))]),
                 (''action'', JObj [(''buttons'', JArr (map replyButton (buttons payloadData)))])];
              withHeader =
                (if truthy (headerText payloadData)
                 then interactive @
                      [(''header'', JObj [(''type'', JStr ''text''),
                                          (''text'', optional (headerText payloadData))])]
                 else interactive);
              withFooter =
                (if truthy (footerText payloadData)
                 then withHeader @
                      [(''footer'', JObj [(''text'', optional (footerText payloadData))])]
                 else withHeader)
          in sendMessage
               \<lparr>message_from = fromNumber,
                message_to = interactive_to payloadData,
                content = InteractiveMessage (JObj withFooter)\<rparr>)"


section \<open>Vocabulary of the properties\<close>

text \<open>Number of button components of one sub-type in a component list.\<close>

definition buttonCount :: "ButtonSubType \<Rightarrow> TemplateComponent list \<Rightarrow> nat" where
  "buttonCount st cs =
     length (filter (\<lambda>c. component_type c = button \<and> sub_type c = Some st) cs)"

definition buttonsOf :: "TemplateComponent list \<Rightarrow> TemplateComponent list" where
  "buttonsOf cs = filter (\<lambda>c. component_type c = button) cs"

text \<open>The count limits of the four sub-types all hold.\<close>

definition withinLimits :: "TemplateComponent list \<Rightarrow> bool" where
  "withinLimits cs \<longleftrightarrow>
     buttonCount quick_reply cs \<le> 10 \<and> buttonCount phone_number cs \<le> 1 \<and>
     buttonCount url cs \<le> 1 \<and> buttonCount copy_code cs \<le> 1"

text \<open>Neither of the two forbidden mixtures of button sub-types occurs.\<close>

definition compatibleSubTypes :: "TemplateComponent list \<Rightarrow> bool" where
  "compatibleSubTypes cs \<longleftrightarrow>
     \<not> (0 < buttonCount quick_reply cs \<and>
        (0 < buttonCount phone_number cs \<or> 0 < buttonCount url cs \<or>
         0 < buttonCount copy_code cs)) \<and>
     \<not> (0 < buttonCount copy_code cs \<and>
        (0 < buttonCount phone_number cs \<or> 0 < buttonCount url cs))"

text \<open>A component that is not a button and carries no parameter.\<close>

definition lacksParameters :: "TemplateComponent \<Rightarrow> bool" where
  "lacksParameters c \<longleftrightarrow>
     component_type c \<noteq> button \<and> (parameters c = None \<or> parameters c = Some [])"

text \<open>Property \<open>k\<close> of a JSON object; \<open>None\<close> when the object has no such property.\<close>

definition property :: "string \<Rightarrow> json \<Rightarrow> json option" where
  "property k j = (case j of JObj kvs \<Rightarrow> map_of kvs k | _ \<Rightarrow> None)"

text \<open>Type, link and id of a media message.\<close>

fun mediaLocators :: "MessageContent \<Rightarrow> (MediaType \<times> string option \<times> string option) option" where
  "mediaLocators (ImageMessage i) = Some (image, image_link i, image_id i)"
| "mediaLocators (DocumentMessage d) = Some (document, document_link d, document_id d)"
| "mediaLocators (VideoMessage v) = Some (video, video_link v, video_id v)"
| "mediaLocators (AudioMessage a) = Some (audio, audio_link a, audio_id a)"
| "mediaLocators (TextMessage _) = None"
| "mediaLocators (InteractiveMessage _) = None"

text \<open>The character classes of the two patterns.\<close>

definition digit :: "char \<Rightarrow> bool" where
  "digit c \<longleftrightarrow> in_range CHR ''0'' CHR ''9'' c"

definition nonzeroDigit :: "char \<Rightarrow> bool" where
  "nonzeroDigit c \<longleftrightarrow> in_range CHR ''1'' CHR ''9'' c"

definition lower :: "char \<Rightarrow> bool" where
  "lower c \<longleftrightarrow> in_range CHR ''a'' CHR ''z'' c"

definition upper :: "char \<Rightarrow> bool" where
  "upper c \<longleftrightarrow> in_range CHR ''A'' CHR ''Z'' c"


section \<open>Example data\<close>

definition tenQuickReplies :: "TemplateComponent list" where
  "tenQuickReplies =
     [createBodyComponent [''John Doe''],
      createQuickReplyButtonComponent 0 ''a'', createQuickReplyButtonComponent 1 ''b'',
      createQuickReplyButtonComponent 2 ''c'', createQuickReplyButtonComponent 3 ''d'',
      createQuickReplyButtonComponent 4 ''e'', createQuickReplyButtonComponent 5 ''f'',
      createQuickReplyButtonComponent 6 ''g'', createQuickReplyButtonComponent 7 ''h'',
      createQuickReplyButtonComponent 8 ''i'', createQuickReplyButtonComponent 9 ''j'']"

definition johnDoeBody :: TemplateComponent where
  "johnDoeBody = createBodyComponent [''John Doe'', ''ORD-12345'']"

definition quickReplyAndUrl :: "TemplateComponent list" where
  "quickReplyAndUrl =
     [johnDoeBody,
      createQuickReplyButtonComponent 0 ''Track Order'',
      createUrlButtonComponent 0 ''https://example.com/track'']"

definition copyCodeAndPhone :: "TemplateComponent list" where
  "copyCodeAndPhone =
     [johnDoeBody,
      createCopyCodeButtonComponent 0 ''SAVE20'',
      createPhoneNumberButtonComponent 1 ''1234567890'']"

definition urlAndPhone :: "TemplateComponent list" where
  "urlAndPhone =
     [johnDoeBody,
      createUrlButtonComponent 0 ''https://example.com/track'',
      createPhoneNumberButtonComponent 1 ''1234567890'']"

definition buttonsWithoutIndex :: "TemplateComponent list" where
  "buttonsWithoutIndex =
     [johnDoeBody,
      \<lparr>component_type = button, parameters = Some [textParameter ''https://example.com/track''],
       sub_type = Some url, index = None\<rparr>,
      \<lparr>component_type = button, parameters = Some [textParameter ''1234567890''],
       sub_type = Some phone_number, index = None\<rparr>]"

definition buttonsWithoutText :: "TemplateComponent list" where
  "buttonsWithoutText =
     [johnDoeBody,
      \<lparr>component_type = button, parameters = None, sub_type = Some quick_reply, index = Some 0\<rparr>,
      \<lparr>component_type = button, parameters = Some [], sub_type = Some quick_reply,
       index = Some 1\<rparr>]"

definition emptyBodyAndElevenQuickReplies :: "TemplateComponent list" where
  "emptyBodyAndElevenQuickReplies =
     createBodyComponent [] # tl tenQuickReplies @ [createQuickReplyButtonComponent 10 ''k'']"

definition emptyBodyAndOneQuickReply :: "TemplateComponent list" where
  "emptyBodyAndOneQuickReply =
     [createBodyComponent [], createQuickReplyButtonComponent 0 ''Track Order'']"

definition quickReplyAndTwoUrls :: "TemplateComponent list" where
  "quickReplyAndTwoUrls =
     quickReplyAndUrl @ [createUrlButtonComponent 1 ''https://example.com/help'']"

definition emptyBodyAndSameIndex :: "TemplateComponent list" where
  "emptyBodyAndSameIndex =
     [createBodyComponent [],
      createQuickReplyButtonComponent 0 ''Track Order'',
      createQuickReplyButtonComponent 0 ''Contact Support'']"

definition englishTemplate :: TemplateMessagePayload where
  "englishTemplate =
     \<lparr>payload_to = ''14155552671'', templateName = ''welcome_message'',
      langCode = ''english'', components = None\<rparr>"

definition helloTo :: "string \<Rightarrow> string \<Rightarrow> WhatsAppMessage" where
  "helloTo sender recipient =
     \<lparr>message_from = sender, message_to = recipient,
      content = TextMessage \<lparr>text_body = ''Hello'', preview_url = None\<rparr>\<rparr>"

definition helloPayload :: "bool option \<Rightarrow> TextPayload" where
  "helloPayload flag =
     \<lparr>text_to = ''14155552671'', text_content = ''Hello'', previewUrl = flag\<rparr>"

definition yesNo :: "ReplyButton list" where
  "yesNo = [\<lparr>button_id = ''yes'', button_title = ''Yes''\<rparr>,
            \<lparr>button_id = ''no'', button_title = ''No''\<rparr>]"

definition fourButtons :: "ReplyButton list" where
  "fourButtons = yesNo @ [\<lparr>button_id = ''maybe'', button_title = ''Maybe''\<rparr>,
                          \<lparr>button_id = ''later'', button_title = ''Later''\<rparr>]"

definition sameIds :: "ReplyButton list" where
  "sameIds = [\<lparr>button_id = ''yes'', button_title = ''Yes''\<rparr>,
              \<lparr>button_id = ''yes'', button_title = ''No''\<rparr>]"

definition sameTitles :: "ReplyButton list" where
  "sameTitles = [\<lparr>button_id = ''yes'', button_title = ''Yes''\<rparr>,
                 \<lparr>button_id = ''no'', button_title = ''Yes''\<rparr>]"

definition askWith :: "ReplyButton list \<Rightarrow> InteractivePayload" where
  "askWith bs =
     \<lparr>interactive_to = ''14155552671'', bodyText = ''Please choose'', buttons = bs,
      headerText = None, footerText = None\<rparr>"

definition imageMessage :: "string option \<Rightarrow> string option \<Rightarrow> WhatsAppMessage" where
  "imageMessage l i =
     \<lparr>message_from = ''14155550100'', message_to = ''14155552671'',
      content = ImageMessage \<lparr>image_link = l, image_id = i, image_caption = None\<rparr>\<rparr>"

definition audioMessage :: "string option \<Rightarrow> string option \<Rightarrow> WhatsAppMessage" where
  "audioMessage l i =
     \<lparr>message_from = ''14155550100'', message_to = ''14155552671'',
      content = AudioMessage \<lparr>audio_link = l, audio_id = i\<rparr>\<rparr>"

section \<open>Auxiliary facts\<close>

lemmas component_defs =
  createBodyComponent_def createQuickReplyButtonComponent_def createUrlButtonComponent_def
  createPhoneNumberButtonComponent_def createCopyCodeButtonComponent_def
  createHeaderTextComponent_def createFooterComponent_def textParameter_def

lemmas vocabulary_defs =
  buttonCount_def buttonsOf_def lacksParameters_def firstParameterText_def

lemma set_size_differs: "card (set xs) \<noteq> length xs \<longleftrightarrow> \<not> distinct xs"
  using card_distinct distinct_card by blast

lemma distinct_map_filter_le1:
  "distinct (map f xs) \<Longrightarrow> length (filter (\<lambda>x. f x = v) xs) \<le> 1"
  by (induction xs) (force simp: filter_empty_conv image_iff)+

lemma two_equal_not_distinct:
  "2 \<le> length (filter (\<lambda>x. f x = v) xs) \<Longrightarrow> \<not> distinct (map f xs)"
  using distinct_map_filter_le1 [of f xs v] by auto

lemma buttonCount_buttonsOf:
  "buttonCount st cs = length (filter (\<lambda>btn. sub_type btn = Some st) (buttonsOf cs))"
  by (simp add: buttonCount_def buttonsOf_def conj_commute)

lemma validateButtonComponents_Nil: "validateButtonComponents [] = Inr ()"
  by (simp add: validateButtonComponents_def)

lemma validateTemplateComponents_eq:
  "validateTemplateComponents cs =
     (case validateButtonComponents (buttonsOf cs) of
        Inl e \<Rightarrow> Inl e
      | Inr _ \<Rightarrow> requireParameters cs)"
  by (cases "buttonsOf cs = []")
     (simp_all add: validateTemplateComponents_def buttonsOf_def validateButtonComponents_Nil)

text \<open>The checks of \<open>validateButtonComponents\<close>, one step at a time, on the buttons of a list.\<close>

lemma buttons_too_many_quick_reply:
  "10 < buttonCount quick_reply cs \<Longrightarrow>
   validateButtonComponents (buttonsOf cs) = Inl (TooManyButtons quick_reply)"
  by (simp add: validateButtonComponents_def buttonCount_buttonsOf)

lemma buttons_too_many_phone_number:
  "buttonCount quick_reply cs \<le> 10 \<Longrightarrow> 1 < buttonCount phone_number cs \<Longrightarrow>
   validateButtonComponents (buttonsOf cs) = Inl (TooManyButtons phone_number)"
  by (simp add: validateButtonComponents_def buttonCount_buttonsOf)

lemma buttons_too_many_url:
  "buttonCount quick_reply cs \<le> 10 \<Longrightarrow> buttonCount phone_number cs \<le> 1 \<Longrightarrow>
   1 < buttonCount url cs \<Longrightarrow>
   validateButtonComponents (buttonsOf cs) = Inl (TooManyButtons url)"
  by (simp add: validateButtonComponents_def buttonCount_buttonsOf)

lemma buttons_too_many_copy_code:
  "buttonCount quick_reply cs \<le> 10 \<Longrightarrow> buttonCount phone_number cs \<le> 1 \<Longrightarrow>
   buttonCount url cs \<le> 1 \<Longrightarrow> 1 < buttonCount copy_code cs \<Longrightarrow>
   validateButtonComponents (buttonsOf cs) = Inl (TooManyButtons copy_code)"
  by (simp add: validateButtonComponents_def buttonCount_buttonsOf)

lemma buttons_within_limits:
  "withinLimits cs \<Longrightarrow>
   validateButtonComponents (buttonsOf cs) =
     (if 0 < buttonCount quick_reply cs \<and>
         (0 < buttonCount phone_number cs \<or> 0 < buttonCount url cs \<or> 0 < buttonCount copy_code cs)
        then Inl (IncompatibleButtonTypes QuickReplyWithOther)
      else if 0 < buttonCount copy_code cs \<and>
         (0 < buttonCount phone_number cs \<or> 0 < buttonCount url cs)
        then Inl (IncompatibleButtonTypes CopyCodeWithPhoneOrUrl)
      else if \<not> distinct (map index (buttonsOf cs)) then Inl DuplicateButtonIndex
      else if \<not> distinct (map firstParameterText (buttonsOf cs)) then Inl DuplicateButtonText
      else Inr ())"
  unfolding withinLimits_def buttonCount_buttonsOf validateButtonComponents_def Let_def
    set_size_differs
  by (simp add: not_less del: length_greater_0_conv)

lemma requireParameters_ok:
  "requireParameters cs = Inr () \<longleftrightarrow> (\<forall>c \<in> set cs. \<not> lacksParameters c)"
  by (induction cs) (auto simp: lacksParameters_def split: option.splits)

lemma requireParameters_error:
  "requireParameters cs = Inl e \<longleftrightarrow>
     (\<exists>c. find lacksParameters cs = Some c \<and> e = EmptyComponentParameters (component_type c))"
  by (induction cs) (auto simp: lacksParameters_def split: option.splits)


section \<open>Button limits\<close>

text \<open>
  C5.  Whenever a component list has more than 10 quick_reply buttons, or more than
  one phone_number, url or copy_code button, validation fails with \<open>TooManyButtons\<close>
  for a sub-type whose limit is exceeded.  A list with exactly 10 quick_reply
  buttons and no other violation (no other sub-type, distinct indices, distinct
  texts, parameters on every other component) passes.
\<close>

theorem too_many_buttons:
  "(10 < buttonCount quick_reply cs \<or> 1 < buttonCount phone_number cs \<or>
    1 < buttonCount url cs \<or> 1 < buttonCount copy_code cs \<longrightarrow>
      (\<exists>st. validateTemplateComponents cs = Inl (TooManyButtons st) \<and>
            (if st = quick_reply then 10 else 1) < buttonCount st cs)) \<and>
   (buttonCount quick_reply cs = 10 \<and> buttonCount phone_number cs = 0 \<and>
    buttonCount url cs = 0 \<and> buttonCount copy_code cs = 0 \<and>
    distinct (map index (buttonsOf cs)) \<and>
    distinct (map firstParameterText (buttonsOf cs)) \<and>
    (\<forall>c \<in> set cs. \<not> lacksParameters c) \<longrightarrow>
      validateTemplateComponents cs = Inr ())"
proof (intro conjI impI)
  assume over: "10 < buttonCount quick_reply cs \<or> 1 < buttonCount phone_number cs \<or>
    1 < buttonCount url cs \<or> 1 < buttonCount copy_code cs"
  consider (qr) "10 < buttonCount quick_reply cs"
    | (ph) "buttonCount quick_reply cs \<le> 10" "1 < buttonCount phone_number cs"
    | (ur) "buttonCount quick_reply cs \<le> 10" "buttonCount phone_number cs \<le> 1"
           "1 < buttonCount url cs"
    | (cc) "buttonCount quick_reply cs \<le> 10" "buttonCount phone_number cs \<le> 1"
           "buttonCount url cs \<le> 1" "1 < buttonCount copy_code cs"
    using over by linarith
  then show "\<exists>st. validateTemplateComponents cs = Inl (TooManyButtons st) \<and>
            (if st = quick_reply then 10 else 1) < buttonCount st cs"
  proof cases
    case qr
    then have "validateTemplateComponents cs = Inl (TooManyButtons quick_reply)"
      by (simp add: validateTemplateComponents_eq buttons_too_many_quick_reply)
    with qr show ?thesis by auto
  next
    case ph
    then have "validateTemplateComponents cs = Inl (TooManyButtons phone_number)"
      by (simp add: validateTemplateComponents_eq buttons_too_many_phone_number)
    with ph show ?thesis by auto
  next
    case ur
    then have "validateTemplateComponents cs = Inl (TooManyButtons url)"
      by (simp add: validateTemplateComponents_eq buttons_too_many_url)
    with ur show ?thesis by auto
  next
    case cc
    then have "validateTemplateComponents cs = Inl (TooManyButtons copy_code)"
      by (simp add: validateTemplateComponents_eq buttons_too_many_copy_code)
    with cc show ?thesis by auto
  qed
next
  assume ok: "buttonCount quick_reply cs = 10 \<and> buttonCount phone_number cs = 0 \<and>
    buttonCount url cs = 0 \<and> buttonCount copy_code cs = 0 \<and>
    distinct (map index (buttonsOf cs)) \<and>
    distinct (map firstParameterText (buttonsOf cs)) \<and>
    (\<forall>c \<in> set cs. \<not> lacksParameters c)"
  then have "withinLimits cs" by (simp add: withinLimits_def)
  then have "validateButtonComponents (buttonsOf cs) = Inr ()"
    using ok by (simp add: buttons_within_limits)
  moreover have "requireParameters cs = Inr ()"
    using ok by (simp add: requireParameters_ok)
  ultimately show "validateTemplateComponents cs = Inr ()"
    by (simp add: validateTemplateComponents_eq)
qed

theorem too_many_buttons_witness:
  "validateTemplateComponents tenQuickReplies = Inr () \<and>
   validateTemplateComponents (tenQuickReplies @ [createQuickReplyButtonComponent 10 ''k''])
     = Inl (TooManyButtons quick_reply)"
proof
  have "buttonCount quick_reply tenQuickReplies = 10 \<and>
    buttonCount phone_number tenQuickReplies = 0 \<and>
    buttonCount url tenQuickReplies = 0 \<and> buttonCount copy_code tenQuickReplies = 0 \<and>
    distinct (map index (buttonsOf tenQuickReplies)) \<and>
    distinct (map firstParameterText (buttonsOf tenQuickReplies)) \<and>
    (\<forall>c \<in> set tenQuickReplies. \<not> lacksParameters c)"
    by (simp add: tenQuickReplies_def component_defs vocabulary_defs)
  with too_many_buttons [of tenQuickReplies]
  show "validateTemplateComponents tenQuickReplies = Inr ()" by blast
next
  let ?cs = "tenQuickReplies @ [createQuickReplyButtonComponent 10 ''k'']"
  have n: "buttonCount quick_reply ?cs = 11" "buttonCount phone_number ?cs = 0"
    "buttonCount url ?cs = 0" "buttonCount copy_code ?cs = 0"
    by (simp_all add: tenQuickReplies_def component_defs vocabulary_defs)
  with too_many_buttons [of ?cs]
  obtain st where st: "validateTemplateComponents ?cs = Inl (TooManyButtons st)"
    "(if st = quick_reply then 10 else 1) < buttonCount st ?cs" by auto
  from st(2) n have "st = quick_reply" by (cases st) auto
  with st(1) show "validateTemplateComponents ?cs = Inl (TooManyButtons quick_reply)" by simp
qed


section \<open>Button exclusivity\<close>

text \<open>
  C6.  For a component list within the count limits: a quick_reply button together
  with a phone_number, url or copy_code button fails with
  \<open>IncompatibleButtonTypes\<close>, and so does a copy_code button together with a
  phone_number or url button.  One url and one phone_number button, with distinct
  indices and texts and no quick_reply or copy_code button, pass.
\<close>

theorem incompatible_button_types:
  assumes "withinLimits cs"
  shows
   "(0 < buttonCount quick_reply cs \<and>
       (0 < buttonCount phone_number cs \<or> 0 < buttonCount url cs \<or>
        0 < buttonCount copy_code cs)
     \<longrightarrow> validateTemplateComponents cs = Inl (IncompatibleButtonTypes QuickReplyWithOther)) \<and>
    (0 < buttonCount copy_code cs \<and>
       (0 < buttonCount phone_number cs \<or> 0 < buttonCount url cs)
     \<longrightarrow> validateTemplateComponents cs =
           Inl (IncompatibleButtonTypes
                 (if 0 < buttonCount quick_reply cs then QuickReplyWithOther
                  else CopyCodeWithPhoneOrUrl))) \<and>
    (buttonCount url cs = 1 \<and> buttonCount phone_number cs = 1 \<and>
     buttonCount quick_reply cs = 0 \<and> buttonCount copy_code cs = 0 \<and>
     distinct (map index (buttonsOf cs)) \<and>
     distinct (map firstParameterText (buttonsOf cs)) \<and>
     (\<forall>c \<in> set cs. \<not> lacksParameters c)
     \<longrightarrow> validateTemplateComponents cs = Inr ())"
proof (intro conjI impI)
  assume "0 < buttonCount quick_reply cs \<and>
       (0 < buttonCount phone_number cs \<or> 0 < buttonCount url cs \<or>
        0 < buttonCount copy_code cs)"
  with assms show "validateTemplateComponents cs = Inl (IncompatibleButtonTypes QuickReplyWithOther)"
    by (simp add: validateTemplateComponents_eq buttons_within_limits)
next
  assume "0 < buttonCount copy_code cs \<and>
       (0 < buttonCount phone_number cs \<or> 0 < buttonCount url cs)"
  with assms show "validateTemplateComponents cs =
           Inl (IncompatibleButtonTypes
                 (if 0 < buttonCount quick_reply cs then QuickReplyWithOther
                  else CopyCodeWithPhoneOrUrl))"
    by (simp add: validateTemplateComponents_eq buttons_within_limits)
next
  assume ok: "buttonCount url cs = 1 \<and> buttonCount phone_number cs = 1 \<and>
     buttonCount quick_reply cs = 0 \<and> buttonCount copy_code cs = 0 \<and>
     distinct (map index (buttonsOf cs)) \<and>
     distinct (map firstParameterText (buttonsOf cs)) \<and>
     (\<forall>c \<in> set cs. \<not> lacksParameters c)"
  then have "requireParameters cs = Inr ()"
    by (simp add: requireParameters_ok)
  with assms ok show "validateTemplateComponents cs = Inr ()"
    by (simp add: validateTemplateComponents_eq buttons_within_limits)
qed

theorem incompatible_button_types_witness:
  "validateTemplateComponents quickReplyAndUrl = Inl (IncompatibleButtonTypes QuickReplyWithOther) \<and>
   validateTemplateComponents copyCodeAndPhone
     = Inl (IncompatibleButtonTypes CopyCodeWithPhoneOrUrl) \<and>
   validateTemplateComponents urlAndPhone = Inr ()"
proof (intro conjI)
  have "withinLimits quickReplyAndUrl"
    and "0 < buttonCount quick_reply quickReplyAndUrl"
    and "0 < buttonCount url quickReplyAndUrl"
    by (simp_all add: withinLimits_def johnDoeBody_def quickReplyAndUrl_def component_defs
          vocabulary_defs)
  with incompatible_button_types [of quickReplyAndUrl]
  show "validateTemplateComponents quickReplyAndUrl
          = Inl (IncompatibleButtonTypes QuickReplyWithOther)"
    by blast
next
  have "withinLimits copyCodeAndPhone"
    and "0 < buttonCount copy_code copyCodeAndPhone"
    and "0 < buttonCount phone_number copyCodeAndPhone"
    and "buttonCount quick_reply copyCodeAndPhone = 0"
    by (simp_all add: withinLimits_def johnDoeBody_def copyCodeAndPhone_def component_defs
          vocabulary_defs)
  with incompatible_button_types [of copyCodeAndPhone]
  show "validateTemplateComponents copyCodeAndPhone
          = Inl (IncompatibleButtonTypes CopyCodeWithPhoneOrUrl)"
    by simp
next
  have "withinLimits urlAndPhone"
    and "buttonCount url urlAndPhone = 1 \<and> buttonCount phone_number urlAndPhone = 1 \<and>
     buttonCount quick_reply urlAndPhone = 0 \<and> buttonCount copy_code urlAndPhone = 0 \<and>
     distinct (map index (buttonsOf urlAndPhone)) \<and>
     distinct (map firstParameterText (buttonsOf urlAndPhone)) \<and>
     (\<forall>c \<in> set urlAndPhone. \<not> lacksParameters c)"
    by (simp_all add: withinLimits_def johnDoeBody_def urlAndPhone_def component_defs vocabulary_defs)
  with incompatible_button_types [of urlAndPhone]
  show "validateTemplateComponents urlAndPhone = Inr ()"
    by blast
qed


lemma buttonCount_pos:
  "c \<in> set cs \<Longrightarrow> component_type c = button \<Longrightarrow> sub_type c = Some st \<Longrightarrow>
   0 < buttonCount st cs"
  by (auto simp: buttonCount_def filter_empty_conv)

lemma over_limit_error:
  assumes "\<not> withinLimits cs"
  shows "\<exists>st. validateTemplateComponents cs = Inl (TooManyButtons st)"
proof -
  consider (qr) "10 < buttonCount quick_reply cs"
    | (ph) "buttonCount quick_reply cs \<le> 10" "1 < buttonCount phone_number cs"
    | (ur) "buttonCount quick_reply cs \<le> 10" "buttonCount phone_number cs \<le> 1"
           "1 < buttonCount url cs"
    | (cc) "buttonCount quick_reply cs \<le> 10" "buttonCount phone_number cs \<le> 1"
           "buttonCount url cs \<le> 1" "1 < buttonCount copy_code cs"
    using assms unfolding withinLimits_def by linarith
  then show ?thesis
    by cases
      (simp_all add: validateTemplateComponents_eq buttons_too_many_quick_reply
        buttons_too_many_phone_number buttons_too_many_url buttons_too_many_copy_code)
qed


section \<open>Uniqueness of button indices and texts\<close>

text \<open>
  C10.  The two uniqueness checks compare the optional values as they are.  For a
  component list that passes the count and exclusivity checks: two or more button
  components without an index fail with \<open>DuplicateButtonIndex\<close>; with distinct
  indices, two or more button components without a first parameter text fail with
  \<open>DuplicateButtonText\<close>.
\<close>

theorem raw_optional_values_compared:
  assumes "withinLimits cs" and "compatibleSubTypes cs"
  shows
   "(2 \<le> length (filter (\<lambda>c. index c = None) (buttonsOf cs))
       \<longrightarrow> validateTemplateComponents cs = Inl DuplicateButtonIndex) \<and>
    (distinct (map index (buttonsOf cs)) \<and>
     2 \<le> length (filter (\<lambda>c. firstParameterText c = None) (buttonsOf cs))
       \<longrightarrow> validateTemplateComponents cs = Inl DuplicateButtonText)"
proof (intro conjI impI)
  assume "2 \<le> length (filter (\<lambda>c. index c = None) (buttonsOf cs))"
  then have "\<not> distinct (map index (buttonsOf cs))"
    by (rule two_equal_not_distinct)
  with assms show "validateTemplateComponents cs = Inl DuplicateButtonIndex"
    by (simp add: validateTemplateComponents_eq buttons_within_limits compatibleSubTypes_def)
next
  assume h: "distinct (map index (buttonsOf cs)) \<and>
     2 \<le> length (filter (\<lambda>c. firstParameterText c = None) (buttonsOf cs))"
  then have "2 \<le> length (filter (\<lambda>c. firstParameterText c = None) (buttonsOf cs))" ..
  then have "\<not> distinct (map firstParameterText (buttonsOf cs))"
    by (rule two_equal_not_distinct)
  with assms h show "validateTemplateComponents cs = Inl DuplicateButtonText"
    by (simp add: validateTemplateComponents_eq buttons_within_limits compatibleSubTypes_def)
qed

theorem raw_optional_values_compared_witness:
  "validateTemplateComponents buttonsWithoutIndex = Inl DuplicateButtonIndex \<and>
   validateTemplateComponents buttonsWithoutText = Inl DuplicateButtonText"
proof
  have "withinLimits buttonsWithoutIndex" and "compatibleSubTypes buttonsWithoutIndex"
    and "2 \<le> length (filter (\<lambda>c. index c = None) (buttonsOf buttonsWithoutIndex))"
    by (simp_all add: withinLimits_def compatibleSubTypes_def buttonsWithoutIndex_def
          johnDoeBody_def component_defs vocabulary_defs)
  with raw_optional_values_compared [of buttonsWithoutIndex]
  show "validateTemplateComponents buttonsWithoutIndex = Inl DuplicateButtonIndex"
    by blast
next
  have "withinLimits buttonsWithoutText" and "compatibleSubTypes buttonsWithoutText"
    and "distinct (map index (buttonsOf buttonsWithoutText)) \<and>
      2 \<le> length (filter (\<lambda>c. firstParameterText c = None) (buttonsOf buttonsWithoutText))"
    by (simp_all add: withinLimits_def compatibleSubTypes_def buttonsWithoutText_def
          johnDoeBody_def component_defs vocabulary_defs)
  with raw_optional_values_compared [of buttonsWithoutText]
  show "validateTemplateComponents buttonsWithoutText = Inl DuplicateButtonText"
    by blast
qed

text \<open>
  The scenario of a quick_reply button and a url button that both have index 0:
  the exclusivity check runs before the index check, so the error is not
  \<open>DuplicateButtonIndex\<close>.
\<close>

theorem quick_reply_and_url_share_index_counterexample:
  "validateTemplateComponents
     [createBodyComponent [''John Doe'', ''ORD-12345''],
      createQuickReplyButtonComponent 0 ''Track Order'',
      createUrlButtonComponent 0 ''https://example.com/track'']
   = Inl (IncompatibleButtonTypes QuickReplyWithOther) \<and>
   validateTemplateComponents
     [createBodyComponent [''John Doe'', ''ORD-12345''],
      createQuickReplyButtonComponent 0 ''Track Order'',
      createUrlButtonComponent 0 ''https://example.com/track'']
   \<noteq> Inl DuplicateButtonIndex"
  by (simp add: validateTemplateComponents_def validateButtonComponents_def component_defs)

text \<open>
  C1 (amended).  Every component list containing a quick_reply button component with
  index 0 and a url button component with index 0 fails validation, never with
  \<open>DuplicateButtonIndex\<close>: within the count limits the error is
  \<open>IncompatibleButtonTypes\<close> (quick reply combined with another sub-type), and
  otherwise it is \<open>TooManyButtons\<close>.
\<close>

theorem quick_reply_and_url_share_index:
  assumes "q \<in> set cs" "component_type q = button" "sub_type q = Some quick_reply"
      "index q = Some 0"
    and "u \<in> set cs" "component_type u = button" "sub_type u = Some url" "index u = Some 0"
  shows "\<exists>e. validateTemplateComponents cs = Inl e \<and> e \<noteq> DuplicateButtonIndex \<and>
           (withinLimits cs \<longrightarrow> e = IncompatibleButtonTypes QuickReplyWithOther) \<and>
           (\<not> withinLimits cs \<longrightarrow> (\<exists>st. e = TooManyButtons st))"
proof (cases "withinLimits cs")
  case True
  have "0 < buttonCount quick_reply cs" and "0 < buttonCount url cs"
    using assms by (simp_all add: buttonCount_pos)
  with True have "validateTemplateComponents cs = Inl (IncompatibleButtonTypes QuickReplyWithOther)"
    by (simp add: validateTemplateComponents_eq buttons_within_limits)
  with True show ?thesis by simp
next
  case False
  then obtain st where "validateTemplateComponents cs = Inl (TooManyButtons st)"
    using over_limit_error by blast
  with False show ?thesis by simp
qed

theorem quick_reply_and_url_share_index_witness:
  "withinLimits quickReplyAndUrl \<and>
   validateTemplateComponents quickReplyAndUrl = Inl (IncompatibleButtonTypes QuickReplyWithOther) \<and>
   \<not> withinLimits quickReplyAndTwoUrls \<and>
   (\<exists>st. validateTemplateComponents quickReplyAndTwoUrls = Inl (TooManyButtons st))"
proof -
  let ?q = "createQuickReplyButtonComponent 0 ''Track Order''"
  let ?u = "createUrlButtonComponent 0 ''https://example.com/track''"
  have w: "withinLimits quickReplyAndUrl"
    by (simp add: withinLimits_def johnDoeBody_def quickReplyAndUrl_def component_defs
          vocabulary_defs)
  have "?q \<in> set quickReplyAndUrl" and "?u \<in> set quickReplyAndUrl"
    by (simp_all add: johnDoeBody_def quickReplyAndUrl_def)
  with quick_reply_and_url_share_index [of ?q quickReplyAndUrl ?u]
  have "\<exists>e. validateTemplateComponents quickReplyAndUrl = Inl e \<and>
       (withinLimits quickReplyAndUrl \<longrightarrow> e = IncompatibleButtonTypes QuickReplyWithOther)"
    by (auto simp: component_defs)
  with w have one: "validateTemplateComponents quickReplyAndUrl
      = Inl (IncompatibleButtonTypes QuickReplyWithOther)"
    by auto
  have n: "\<not> withinLimits quickReplyAndTwoUrls"
    by (simp add: withinLimits_def quickReplyAndTwoUrls_def johnDoeBody_def quickReplyAndUrl_def
          component_defs vocabulary_defs)
  have "?q \<in> set quickReplyAndTwoUrls" and "?u \<in> set quickReplyAndTwoUrls"
    by (simp_all add: quickReplyAndTwoUrls_def johnDoeBody_def quickReplyAndUrl_def)
  with quick_reply_and_url_share_index [of ?q quickReplyAndTwoUrls ?u]
  have "\<exists>e. validateTemplateComponents quickReplyAndTwoUrls = Inl e \<and>
       (\<not> withinLimits quickReplyAndTwoUrls \<longrightarrow> (\<exists>st. e = TooManyButtons st))"
    by (auto simp: component_defs)
  with n have "\<exists>st. validateTemplateComponents quickReplyAndTwoUrls = Inl (TooManyButtons st)"
    by auto
  with w one n show ?thesis by simp
qed


section \<open>Order of the checks\<close>

text \<open>
  A body component without parameters next to eleven quick_reply buttons: the
  button checks run first, so the error is \<open>TooManyButtons\<close>.
\<close>

theorem empty_parameters_reported_first_counterexample:
  "validateTemplateComponents
     [createBodyComponent [],
      createQuickReplyButtonComponent 0 ''a'', createQuickReplyButtonComponent 1 ''b'',
      createQuickReplyButtonComponent 2 ''c'', createQuickReplyButtonComponent 3 ''d'',
      createQuickReplyButtonComponent 4 ''e'', createQuickReplyButtonComponent 5 ''f'',
      createQuickReplyButtonComponent 6 ''g'', createQuickReplyButtonComponent 7 ''h'',
      createQuickReplyButtonComponent 8 ''i'', createQuickReplyButtonComponent 9 ''j'',
      createQuickReplyButtonComponent 10 ''k'']
   = Inl (TooManyButtons quick_reply) \<and>
   lacksParameters (createBodyComponent [])"
  by (simp add: validateTemplateComponents_def validateButtonComponents_def component_defs
        lacksParameters_def)

text \<open>
  C4 (amended).  The button checks run before the parameter check.  For every
  component list with a non-button component that has no parameters: any error of
  the button checks is the error reported (\<open>TooManyButtons\<close> for more than 10
  quick_reply buttons), and \<open>EmptyComponentParameters\<close>, for the first such
  component, is reported only when the button checks pass.
\<close>

theorem button_checks_come_first:
  assumes "\<exists>c \<in> set cs. lacksParameters c"
  shows
   "(validateButtonComponents (buttonsOf cs) = Inl e \<longrightarrow> validateTemplateComponents cs = Inl e) \<and>
    (10 < buttonCount quick_reply cs
       \<longrightarrow> validateTemplateComponents cs = Inl (TooManyButtons quick_reply)) \<and>
    (validateButtonComponents (buttonsOf cs) = Inr ()
       \<longrightarrow> (\<exists>c. find lacksParameters cs = Some c \<and>
               validateTemplateComponents cs = Inl (EmptyComponentParameters (component_type c))))"
proof (intro conjI impI)
  assume "validateButtonComponents (buttonsOf cs) = Inl e"
  then show "validateTemplateComponents cs = Inl e"
    by (simp add: validateTemplateComponents_eq)
next
  assume "10 < buttonCount quick_reply cs"
  then show "validateTemplateComponents cs = Inl (TooManyButtons quick_reply)"
    by (simp add: validateTemplateComponents_eq buttons_too_many_quick_reply)
next
  assume ok: "validateButtonComponents (buttonsOf cs) = Inr ()"
  from assms obtain c where c: "find lacksParameters cs = Some c"
    by (cases "find lacksParameters cs") (auto simp: find_None_iff)
  then have "requireParameters cs = Inl (EmptyComponentParameters (component_type c))"
    by (simp add: requireParameters_error)
  with ok c show "\<exists>c. find lacksParameters cs = Some c \<and>
      validateTemplateComponents cs = Inl (EmptyComponentParameters (component_type c))"
    by (simp add: validateTemplateComponents_eq)
qed

theorem button_checks_come_first_witness:
  "validateTemplateComponents emptyBodyAndSameIndex = Inl DuplicateButtonIndex \<and>
   validateTemplateComponents emptyBodyAndElevenQuickReplies = Inl (TooManyButtons quick_reply) \<and>
   validateTemplateComponents emptyBodyAndOneQuickReply = Inl (EmptyComponentParameters body)"
proof (intro conjI)
  have "\<exists>c \<in> set emptyBodyAndSameIndex. lacksParameters c"
    and "validateButtonComponents (buttonsOf emptyBodyAndSameIndex) = Inl DuplicateButtonIndex"
    by (simp_all add: emptyBodyAndSameIndex_def validateButtonComponents_def component_defs
          vocabulary_defs)
  with button_checks_come_first [of emptyBodyAndSameIndex DuplicateButtonIndex]
  show "validateTemplateComponents emptyBodyAndSameIndex = Inl DuplicateButtonIndex"
    by blast
next
  have "\<exists>c \<in> set emptyBodyAndElevenQuickReplies. lacksParameters c"
    and "10 < buttonCount quick_reply emptyBodyAndElevenQuickReplies"
    by (simp_all add: emptyBodyAndElevenQuickReplies_def tenQuickReplies_def component_defs
          vocabulary_defs)
  with button_checks_come_first [of emptyBodyAndElevenQuickReplies]
  show "validateTemplateComponents emptyBodyAndElevenQuickReplies = Inl (TooManyButtons quick_reply)"
    by blast
next
  have "\<exists>c \<in> set emptyBodyAndOneQuickReply. lacksParameters c"
    and "validateButtonComponents (buttonsOf emptyBodyAndOneQuickReply) = Inr ()"
    and "find lacksParameters emptyBodyAndOneQuickReply = Some (createBodyComponent [])"
    by (simp_all add: emptyBodyAndOneQuickReply_def validateButtonComponents_def component_defs
          vocabulary_defs)
  with button_checks_come_first [of emptyBodyAndOneQuickReply]
  show "validateTemplateComponents emptyBodyAndOneQuickReply = Inl (EmptyComponentParameters body)"
    by (auto simp: component_defs)
qed


section \<open>The two patterns, characterised\<close>

text \<open>
  What the matcher does on a character range, on a repeated range and on a
  sequence; then the strings each of the two patterns accepts.
\<close>

lemma consume_Range:
  "consume (Range lo hi) s = (if s \<noteq> [] \<and> in_range lo hi (hd s) then [tl s] else [])"
  by (cases s) simp_all

lemma rounds_Nil: "((\<lambda>ss. concat (map (consume r) ss)) ^^ k) [] = []"
  by (induction k) simp_all

lemma rounds_Range:
  "((\<lambda>ss. concat (map (consume (Range lo hi)) ss)) ^^ k) [s] =
     (if k \<le> length s \<and> list_all (in_range lo hi) (take k s) then [drop k s] else [])"
proof (induction k arbitrary: s)
  case 0
  show ?case by simp
next
  case (Suc k)
  let ?F = "\<lambda>ss. concat (map (consume (Range lo hi)) ss)"
  have step: "(?F ^^ Suc k) [s] = (?F ^^ k) (consume (Range lo hi) s)"
    by (simp only: funpow_Suc_right o_apply) simp
  show ?case
  proof (cases s)
    case Nil
    then have "consume (Range lo hi) s = []" by simp
    with Nil show ?thesis
      unfolding step by (simp add: rounds_Nil del: consume.simps)
  next
    case (Cons c cs)
    have IH: "(?F ^^ k) [cs] =
        (if k \<le> length cs \<and> list_all (in_range lo hi) (take k cs) then [drop k cs] else [])"
      by (rule Suc)
    have c: "consume (Range lo hi) s = (if in_range lo hi c then [cs] else [])"
      using Cons by simp
    show ?thesis
      unfolding step c by (simp add: IH rounds_Nil Cons del: consume.simps)
  qed
qed

lemma consume_Repeat_Range:
  "set (consume (Repeat (Range lo hi) m n) s) =
     {drop k s | k. m \<le> k \<and> k \<le> n \<and> k \<le> length s \<and> list_all (in_range lo hi) (take k s)}"
  unfolding consume.simps rounds_Range by auto

lemma consume_Repeat_exact:
  "set (consume (Repeat (Range lo hi) n n) s) =
     (if n \<le> length s \<and> list_all (in_range lo hi) (take n s) then {drop n s} else {})"
  unfolding consume_Repeat_Range by (auto simp: le_antisym)

lemma exact_Repeat_Range:
  "[] \<in> set (consume (Repeat (Range lo hi) n n) s) \<longleftrightarrow>
     length s = n \<and> list_all (in_range lo hi) s"
  unfolding consume_Repeat_exact by auto

lemma consume_Seq:
  "[] \<in> set (consume (Seq r1 r2) s) \<longleftrightarrow> (\<exists>t \<in> set (consume r1 s). [] \<in> set (consume r2 t))"
  by auto

lemma consume_Lit:
  "consume (Lit a) s = (if s \<noteq> [] \<and> hd s = a then [tl s] else [])"
  by (cases s) simp_all

lemma length_five:
  "length s = 5 \<Longrightarrow> \<exists>a b c d e. s = [a, b, c, d, e]"
  by (auto simp: eval_nat_numeral length_Suc_conv)

lemma langCode_matches:
  "test_anchored langCodePattern s \<longleftrightarrow>
     2 \<le> length s \<and> list_all lower (take 2 s) \<and> drop 2 s \<noteq> [] \<and>
     hd (drop 2 s) = CHR ''_'' \<and> length (tl (drop 2 s)) = 2 \<and>
     list_all upper (tl (drop 2 s))"
  unfolding test_anchored_def langCodePattern_def consume_Seq
  unfolding exact_Repeat_Range
  unfolding consume_Repeat_exact consume_Lit lower_def upper_def
  by auto

lemma validateLanguageCode_shape:
  "validateLanguageCode s \<longleftrightarrow>
     (\<exists>a b c d. s = [a, b, CHR ''_'', c, d] \<and> lower a \<and> lower b \<and> upper c \<and> upper d)"
proof
  assume "validateLanguageCode s"
  then have m: "2 \<le> length s \<and> list_all lower (take 2 s) \<and> drop 2 s \<noteq> [] \<and>
     hd (drop 2 s) = CHR ''_'' \<and> length (tl (drop 2 s)) = 2 \<and>
     list_all upper (tl (drop 2 s))"
    by (simp add: validateLanguageCode_def langCode_matches)
  then have "length s = 5" by auto
  then obtain a b c d e where s: "s = [a, b, c, d, e]"
    using length_five by blast
  with m show "\<exists>a b c d. s = [a, b, CHR ''_'', c, d] \<and> lower a \<and> lower b \<and> upper c \<and> upper d"
    by (simp add: eval_nat_numeral)
next
  assume "\<exists>a b c d. s = [a, b, CHR ''_'', c, d] \<and> lower a \<and> lower b \<and> upper c \<and> upper d"
  then show "validateLanguageCode s"
    by (auto simp: validateLanguageCode_def langCode_matches eval_nat_numeral)
qed

lemma phone_matches:
  "test_anchored phonePattern s \<longleftrightarrow>
     s \<noteq> [] \<and> nonzeroDigit (hd s) \<and>
     (\<exists>k\<le>3. k \<le> length (tl s) \<and> list_all digit (take k (tl s)) \<and>
        drop k (tl s) \<noteq> [] \<and> nonzeroDigit (hd (drop k (tl s))) \<and>
        length (tl (drop k (tl s))) = 9 \<and> list_all digit (tl (drop k (tl s))))"
  unfolding test_anchored_def phonePattern_def consume_Seq
  unfolding exact_Repeat_Range
  unfolding consume_Repeat_Range consume_Range digit_def nonzeroDigit_def
  by auto

lemma nonzeroDigit_digit: "nonzeroDigit c \<Longrightarrow> digit c"
  by (simp add: nonzeroDigit_def digit_def in_range_def)

lemma validatePhoneNumber_shape:
  "validatePhoneNumber s \<longleftrightarrow>
     (\<exists>a cc b sub. s = a # cc @ b # sub \<and> length cc \<le> 3 \<and> length sub = 9 \<and>
        nonzeroDigit a \<and> list_all digit cc \<and> nonzeroDigit b \<and> list_all digit sub)"
proof
  assume "validatePhoneNumber s"
  then have "test_anchored phonePattern s"
    by (simp add: validatePhoneNumber_def)
  then obtain k where k: "s \<noteq> []" "nonzeroDigit (hd s)" "k \<le> 3" "k \<le> length (tl s)"
      "list_all digit (take k (tl s))" "drop k (tl s) \<noteq> []"
      "nonzeroDigit (hd (drop k (tl s)))" "length (tl (drop k (tl s))) = 9"
      "list_all digit (tl (drop k (tl s)))"
    unfolding phone_matches by blast
  have "s = hd s # take k (tl s) @ hd (drop k (tl s)) # tl (drop k (tl s))"
    using k(1,6) by simp
  moreover have "length (take k (tl s)) \<le> 3" using k(3) by simp
  ultimately show "\<exists>a cc b sub. s = a # cc @ b # sub \<and> length cc \<le> 3 \<and> length sub = 9 \<and>
        nonzeroDigit a \<and> list_all digit cc \<and> nonzeroDigit b \<and> list_all digit sub"
    using k(2,5,7,8,9) by blast
next
  assume "\<exists>a cc b sub. s = a # cc @ b # sub \<and> length cc \<le> 3 \<and> length sub = 9 \<and>
        nonzeroDigit a \<and> list_all digit cc \<and> nonzeroDigit b \<and> list_all digit sub"
  then obtain a cc b sub where s: "s = a # cc @ b # sub" "length cc \<le> 3" "length sub = 9"
        "nonzeroDigit a" "list_all digit cc" "nonzeroDigit b" "list_all digit sub"
    by blast
  have "test_anchored phonePattern s"
    unfolding phone_matches
    using s by (auto intro!: exI [of _ "length cc"])
  moreover have "length s \<le> 15" using s(1,2,3) by simp
  ultimately show "validatePhoneNumber s"
    by (simp add: validatePhoneNumber_def)
qed

lemma validatePhoneNumber_length:
  "validatePhoneNumber s \<Longrightarrow> 11 \<le> length s \<and> length s \<le> 14 \<and> list_all digit s"
  unfolding validatePhoneNumber_shape
  by (auto simp: nonzeroDigit_digit)


section \<open>Phone numbers\<close>

lemma sendMessage_invalid_from:
  "\<not> validatePhoneNumber (message_from m) \<Longrightarrow>
   sendMessage m = Inl (InvalidFromNumber (message_from m))"
  by (simp add: sendMessage_def)

lemma sendMessage_invalid_to:
  "validatePhoneNumber (message_from m) \<Longrightarrow> \<not> validatePhoneNumber (message_to m) \<Longrightarrow>
   sendMessage m = Inl (InvalidToNumber (message_to m))"
  by (simp add: sendMessage_def)

lemma valid_recipient: "validatePhoneNumber ''14155552671''"
  by code_simp

lemma valid_sender: "validatePhoneNumber ''14155550100''"
  by code_simp

lemma invalid_short: "\<not> validatePhoneNumber ''1234567890''"
  by code_simp

text \<open>
  A string of ten digits, none of them zero, is within 1 to 15 digits and has a
  non-zero digit at the start of every segment however it is cut; the predicate
  rejects it.
\<close>

theorem phone_number_predicate_counterexample:
  "length ''4155552671'' = 10 \<and> list_all nonzeroDigit ''4155552671'' \<and>
   \<not> validatePhoneNumber ''4155552671''"
proof -
  have "\<not> validatePhoneNumber ''4155552671''" by code_simp
  then show ?thesis by (simp add: nonzeroDigit_def in_range_def)
qed

text \<open>
  C3 (amended).  The phone-number predicate accepts exactly the strings made of a
  first segment of 1 to 4 digits followed by a second segment of 10 digits, each
  segment starting with a non-zero digit (11 to 14 digits in all), and rejects
  every other string.  A sender failing it makes \<open>sendMessage\<close> fail with the
  error naming the sender; a recipient failing it, the sender passing, with the
  error naming the recipient; in both cases nothing is posted.
\<close>

theorem phone_number_predicate:
  "(validatePhoneNumber s \<longleftrightarrow>
      (\<exists>a cc b sub. s = a # cc @ b # sub \<and> length cc \<le> 3 \<and> length sub = 9 \<and>
         nonzeroDigit a \<and> list_all digit cc \<and> nonzeroDigit b \<and> list_all digit sub)) \<and>
   (validatePhoneNumber s \<longrightarrow> 11 \<le> length s \<and> length s \<le> 14 \<and> list_all digit s) \<and>
   (\<not> validatePhoneNumber (message_from m) \<longrightarrow>
      sendMessage m = Inl (InvalidFromNumber (message_from m))) \<and>
   (validatePhoneNumber (message_from m) \<and> \<not> validatePhoneNumber (message_to m) \<longrightarrow>
      sendMessage m = Inl (InvalidToNumber (message_to m))) \<and>
   message (InvalidFromNumber v) = ''Invalid '' @ quote @ ''from'' @ quote @ '' phone number format: '' @ v \<and>
   message (InvalidToNumber v) = ''Invalid '' @ quote @ ''to'' @ quote @ '' phone number format: '' @ v"
proof (intro conjI impI)
  show "validatePhoneNumber s \<longleftrightarrow>
      (\<exists>a cc b sub. s = a # cc @ b # sub \<and> length cc \<le> 3 \<and> length sub = 9 \<and>
         nonzeroDigit a \<and> list_all digit cc \<and> nonzeroDigit b \<and> list_all digit sub)"
    by (rule validatePhoneNumber_shape)
next
  assume "validatePhoneNumber s"
  then have "11 \<le> length s \<and> length s \<le> 14 \<and> list_all digit s"
    by (rule validatePhoneNumber_length)
  then show "11 \<le> length s" "length s \<le> 14" "list_all digit s" by simp_all
next
  assume "\<not> validatePhoneNumber (message_from m)"
  then show "sendMessage m = Inl (InvalidFromNumber (message_from m))"
    by (rule sendMessage_invalid_from)
next
  assume "validatePhoneNumber (message_from m) \<and> \<not> validatePhoneNumber (message_to m)"
  then show "sendMessage m = Inl (InvalidToNumber (message_to m))"
    by (simp add: sendMessage_invalid_to)
qed simp_all

theorem phone_number_predicate_witness:
  "validatePhoneNumber ''14155552671'' \<and>
   11 \<le> length ''14155550100'' \<and> length ''14155550100'' \<le> 14 \<and>
   list_all digit ''14155550100'' \<and>
   sendMessage (helloTo ''1234567890'' ''14155552671'') = Inl (InvalidFromNumber ''1234567890'') \<and>
   sendMessage (helloTo ''14155550100'' ''_14155552671'') = Inl (InvalidToNumber ''_14155552671'')"
proof (intro conjI)
  let ?bad_from = "helloTo ''1234567890'' ''14155552671''"
  let ?bad_to = "helloTo ''14155550100'' ''_14155552671''"
  have parts: "''14155552671'' = CHR ''1'' # [] @ CHR ''4'' # ''155552671'' \<and>
        length ([] :: string) \<le> 3 \<and> length ''155552671'' = 9 \<and>
        nonzeroDigit CHR ''1'' \<and> list_all digit [] \<and> nonzeroDigit CHR ''4'' \<and>
        list_all digit ''155552671''"
    by (simp add: digit_def nonzeroDigit_def in_range_def)
  show "validatePhoneNumber ''14155552671''"
    unfolding phone_number_predicate [of "''14155552671''" ?bad_from, THEN conjunct1]
    using parts by (intro exI)
  from phone_number_predicate [of "''14155550100''" ?bad_from, THEN conjunct2, THEN conjunct1]
    valid_sender
  have "11 \<le> length ''14155550100'' \<and> length ''14155550100'' \<le> 14 \<and>
      list_all digit ''14155550100''"
    by (rule mp)
  then show "11 \<le> length ''14155550100''" "length ''14155550100'' \<le> 14"
    "list_all digit ''14155550100''"
    by blast+
  have "\<not> validatePhoneNumber (message_from ?bad_from)"
    using invalid_short by (simp add: helloTo_def)
  with phone_number_predicate [of "[]" ?bad_from, THEN conjunct2, THEN conjunct2, THEN conjunct1]
  have "sendMessage ?bad_from = Inl (InvalidFromNumber (message_from ?bad_from))" by (rule mp)
  then show "sendMessage ?bad_from = Inl (InvalidFromNumber ''1234567890'')"
    by (simp add: helloTo_def)
  have "\<not> validatePhoneNumber ''_14155552671''" by code_simp
  with valid_sender
  have "validatePhoneNumber (message_from ?bad_to) \<and> \<not> validatePhoneNumber (message_to ?bad_to)"
    by (simp add: helloTo_def)
  with phone_number_predicate [of "[]" ?bad_to, THEN conjunct2, THEN conjunct2, THEN conjunct2,
      THEN conjunct1]
  have "sendMessage ?bad_to = Inl (InvalidToNumber (message_to ?bad_to))" by (rule mp)
  then show "sendMessage ?bad_to = Inl (InvalidToNumber ''_14155552671'')"
    by (simp add: helloTo_def)
qed


section \<open>Language codes\<close>

lemma en_US_valid: "validateLanguageCode ''en_US''"
  by code_simp

lemma english_invalid: "\<not> validateLanguageCode ''english''"
  by code_simp

text \<open>
  A rejected language code with a sender that fails the phone-number check: the
  phone-number check comes first, and the error names the sender.
\<close>

theorem language_code_counterexample:
  "\<not> validateLanguageCode ''english'' \<and>
   sendTemplateMessage ''1234567890''
     \<lparr>payload_to = ''14155552671'', templateName = ''welcome_message'',
      langCode = ''english'', components = None\<rparr>
   = Inl (InvalidFromNumber ''1234567890'')"
  using invalid_short english_invalid
  by (simp add: sendTemplateMessage_def)

text \<open>
  C7 (amended).  The language-code validator accepts a string exactly when it is two
  lowercase letters, an underscore and two uppercase letters.  Sending a template
  message with a rejected language code always fails before anything is posted.
  The phone-number checks run first: a sender failing its check gives the error
  naming the sender, a recipient failing it (the sender passing) the error naming
  the recipient, whatever the language code; the error names the language code
  when both pass.
\<close>

theorem language_code:
  "(validateLanguageCode s \<longleftrightarrow>
      (\<exists>a b c d. s = [a, b, CHR ''_'', c, d] \<and> lower a \<and> lower b \<and> upper c \<and> upper d)) \<and>
   validateLanguageCode ''en_US'' \<and> validateLanguageCode ''es_ES'' \<and>
   \<not> validateLanguageCode ''english'' \<and> \<not> validateLanguageCode ''en-US'' \<and>
   \<not> validateLanguageCode ''EN_us'' \<and>
   (\<not> validateLanguageCode (langCode p) \<longrightarrow>
      (\<exists>e. sendTemplateMessage sender p = Inl e) \<and>
      (validatePhoneNumber sender \<and> validatePhoneNumber (payload_to p) \<longrightarrow>
         sendTemplateMessage sender p = Inl (InvalidLanguageCode (langCode p)))) \<and>
   (\<not> validatePhoneNumber sender \<longrightarrow>
      sendTemplateMessage sender p = Inl (InvalidFromNumber sender)) \<and>
   (validatePhoneNumber sender \<and> \<not> validatePhoneNumber (payload_to p) \<longrightarrow>
      sendTemplateMessage sender p = Inl (InvalidToNumber (payload_to p))) \<and>
   message (InvalidLanguageCode v) =
     ''Invalid language code format: '' @ v @ ''. Expected format: en_US, es_ES, fr_FR, etc.''"
proof -
  have "validateLanguageCode ''es_ES''" "\<not> validateLanguageCode ''en-US''"
    "\<not> validateLanguageCode ''EN_us''"
    by code_simp+
  moreover have "\<not> validateLanguageCode (langCode p) \<longrightarrow>
      (\<exists>e. sendTemplateMessage sender p = Inl e) \<and>
      (validatePhoneNumber sender \<and> validatePhoneNumber (payload_to p) \<longrightarrow>
         sendTemplateMessage sender p = Inl (InvalidLanguageCode (langCode p)))"
    by (simp add: sendTemplateMessage_def)
  moreover have "\<not> validatePhoneNumber sender \<longrightarrow>
      sendTemplateMessage sender p = Inl (InvalidFromNumber sender)"
    by (simp add: sendTemplateMessage_def)
  moreover have "validatePhoneNumber sender \<and> \<not> validatePhoneNumber (payload_to p) \<longrightarrow>
      sendTemplateMessage sender p = Inl (InvalidToNumber (payload_to p))"
    by (simp add: sendTemplateMessage_def)
  moreover note validateLanguageCode_shape [of s] en_US_valid english_invalid
  ultimately show ?thesis
    by (simp only: message.simps simp_thms)
qed

theorem language_code_witness:
  "validateLanguageCode ''fr_FR'' \<and>
   sendTemplateMessage ''14155550100'' englishTemplate = Inl (InvalidLanguageCode ''english'') \<and>
   sendTemplateMessage ''1234567890'' englishTemplate = Inl (InvalidFromNumber ''1234567890'') \<and>
   sendTemplateMessage ''14155550100'' (englishTemplate\<lparr>payload_to := ''0987654321''\<rparr>)
     = Inl (InvalidToNumber ''0987654321'')"
proof (intro conjI)
  have parts: "''fr_FR'' = [CHR ''f'', CHR ''r'', CHR ''_'', CHR ''F'', CHR ''R''] \<and>
      lower CHR ''f'' \<and> lower CHR ''r'' \<and> upper CHR ''F'' \<and> upper CHR ''R''"
    by (simp add: lower_def upper_def in_range_def)
  show "validateLanguageCode ''fr_FR''"
    unfolding language_code [of "''fr_FR''" englishTemplate "[]", THEN conjunct1]
    using parts by (intro exI)
next
  note tail = language_code [of "[]" englishTemplate "''14155550100''", THEN conjunct2,
      THEN conjunct2, THEN conjunct2, THEN conjunct2, THEN conjunct2, THEN conjunct2,
      THEN conjunct1]
  have "\<not> validateLanguageCode (langCode englishTemplate)"
    using english_invalid by (simp add: englishTemplate_def)
  with tail have "validatePhoneNumber ''14155550100'' \<and>
      validatePhoneNumber (payload_to englishTemplate) \<longrightarrow>
      sendTemplateMessage ''14155550100'' englishTemplate
        = Inl (InvalidLanguageCode (langCode englishTemplate))"
    by simp
  moreover have "validatePhoneNumber ''14155550100'' \<and>
      validatePhoneNumber (payload_to englishTemplate)"
    using valid_sender valid_recipient by (simp add: englishTemplate_def)
  ultimately show "sendTemplateMessage ''14155550100'' englishTemplate
      = Inl (InvalidLanguageCode ''english'')"
    by (simp add: englishTemplate_def)
next
  note sender_first = language_code [of "[]" englishTemplate "''1234567890''", THEN conjunct2,
      THEN conjunct2, THEN conjunct2, THEN conjunct2, THEN conjunct2, THEN conjunct2,
      THEN conjunct2, THEN conjunct1]
  from sender_first invalid_short
  show "sendTemplateMessage ''1234567890'' englishTemplate = Inl (InvalidFromNumber ''1234567890'')"
    by (rule mp)
next
  let ?p = "englishTemplate\<lparr>payload_to := ''0987654321''\<rparr>"
  note recipient_next = language_code [of "[]" ?p "''14155550100''", THEN conjunct2,
      THEN conjunct2, THEN conjunct2, THEN conjunct2, THEN conjunct2, THEN conjunct2,
      THEN conjunct2, THEN conjunct2, THEN conjunct1]
  have "\<not> validatePhoneNumber ''0987654321''" by code_simp
  with valid_sender
  have "validatePhoneNumber ''14155550100'' \<and> \<not> validatePhoneNumber (payload_to ?p)"
    by simp
  with recipient_next
  have "sendTemplateMessage ''14155550100'' ?p = Inl (InvalidToNumber (payload_to ?p))"
    by (rule mp)
  then show "sendTemplateMessage ''14155550100'' ?p = Inl (InvalidToNumber ''0987654321'')"
    by simp
qed


section \<open>Text messages\<close>

text \<open>
  C8.  A text message to 14155552671 with body Hello and the preview flag set, from
  the sender 14155550100, is posted as the object with the properties \<open>from\<close>,
  \<open>To\<close>, \<open>type\<close> and \<open>text\<close>, in this order and with these names; an omitted
  preview flag is sent as false.
\<close>

theorem text_message_wire_body:
  "sendTextMessage ''14155550100'' (helloPayload (Some True)) =
     Inr (JObj [(''from'', JStr ''14155550100''),
                (''To'', JStr ''14155552671''),
                (''type'', JStr ''text''),
                (''text'', JObj [(''body'', JStr ''Hello''), (''preview_url'', JBool True)])]) \<and>
   sendTextMessage ''14155550100'' (helloPayload None) =
     Inr (JObj [(''from'', JStr ''14155550100''),
                (''To'', JStr ''14155552671''),
                (''type'', JStr ''text''),
                (''text'', JObj [(''body'', JStr ''Hello''), (''preview_url'', JBool False)])]) \<and>
   sendTextMessage sender (p\<lparr>previewUrl := None\<rparr>) =
     sendTextMessage sender (p\<lparr>previewUrl := Some False\<rparr>) \<and>
   sendMessage \<lparr>message_from = sender, message_to = recipient,
       content = TextMessage \<lparr>text_body = b, preview_url = None\<rparr>\<rparr> =
     sendMessage \<lparr>message_from = sender, message_to = recipient,
       content = TextMessage \<lparr>text_body = b, preview_url = Some False\<rparr>\<rparr>"
  using valid_sender valid_recipient
  by (simp add: sendTextMessage_def sendMessage_def helloPayload_def)


section \<open>Interactive buttons\<close>

text \<open>
  C9.  Validation of the buttons of an interactive message succeeds exactly for 1 to
  3 buttons with pairwise distinct ids and pairwise distinct titles.  Otherwise it
  fails with the count error, the duplicate-id error or the duplicate-title error,
  in this order of precedence, and \<open>sendInteractiveMessage\<close> fails with the same
  error without posting anything.
\<close>

theorem interactive_buttons:
  "(validateInteractiveButtons bs = Inr () \<longleftrightarrow>
      1 \<le> length bs \<and> length bs \<le> 3 \<and>
      distinct (map button_id bs) \<and> distinct (map button_title bs)) \<and>
   (length bs = 0 \<longrightarrow>
      validateInteractiveButtons bs = Inl (InteractiveButtonCountOutOfRange NoButtons)) \<and>
   (3 < length bs \<longrightarrow>
      validateInteractiveButtons bs = Inl (InteractiveButtonCountOutOfRange MoreThanThree)) \<and>
   (1 \<le> length bs \<and> length bs \<le> 3 \<and> \<not> distinct (map button_id bs) \<longrightarrow>
      validateInteractiveButtons bs = Inl DuplicateButtonId) \<and>
   (1 \<le> length bs \<and> length bs \<le> 3 \<and> distinct (map button_id bs) \<and>
    \<not> distinct (map button_title bs) \<longrightarrow>
      validateInteractiveButtons bs = Inl DuplicateButtonTitle) \<and>
   (validateInteractiveButtons (buttons p) = Inl e \<longrightarrow>
      sendInteractiveMessage sender p = Inl e)"
proof -
  have v: "validateInteractiveButtons bs =
     (if length bs = 0 then Inl (InteractiveButtonCountOutOfRange NoButtons)
      else if 3 < length bs then Inl (InteractiveButtonCountOutOfRange MoreThanThree)
      else if \<not> distinct (map button_id bs) then Inl DuplicateButtonId
      else if \<not> distinct (map button_title bs) then Inl DuplicateButtonTitle
      else Inr ())"
    unfolding validateInteractiveButtons_def Let_def set_size_differs by simp
  have "validateInteractiveButtons (buttons p) = Inl e \<longrightarrow>
      sendInteractiveMessage sender p = Inl e"
    by (simp add: sendInteractiveMessage_def)
  moreover have "(validateInteractiveButtons bs = Inr () \<longleftrightarrow>
      1 \<le> length bs \<and> length bs \<le> 3 \<and>
      distinct (map button_id bs) \<and> distinct (map button_title bs))"
    unfolding v by (cases bs) auto
  ultimately show ?thesis
    unfolding v by simp
qed

theorem interactive_buttons_witness:
  "validateInteractiveButtons yesNo = Inr () \<and>
   validateInteractiveButtons [] = Inl (InteractiveButtonCountOutOfRange NoButtons) \<and>
   validateInteractiveButtons fourButtons = Inl (InteractiveButtonCountOutOfRange MoreThanThree) \<and>
   validateInteractiveButtons sameIds = Inl DuplicateButtonId \<and>
   validateInteractiveButtons sameTitles = Inl DuplicateButtonTitle \<and>
   sendInteractiveMessage ''14155550100'' (askWith sameIds) = Inl DuplicateButtonId"
proof (intro conjI)
  have "1 \<le> length yesNo \<and> length yesNo \<le> 3 \<and>
      distinct (map button_id yesNo) \<and> distinct (map button_title yesNo)"
    by (simp add: yesNo_def)
  then show "validateInteractiveButtons yesNo = Inr ()"
    unfolding interactive_buttons [of yesNo "askWith yesNo" DuplicateButtonId "[]", THEN conjunct1] .
next
  note c = interactive_buttons [of "[]" "askWith []" DuplicateButtonId "[]",
      THEN conjunct2, THEN conjunct1]
  then show "validateInteractiveButtons [] = Inl (InteractiveButtonCountOutOfRange NoButtons)"
    by simp
next
  note c = interactive_buttons [of fourButtons "askWith []" DuplicateButtonId "[]",
      THEN conjunct2, THEN conjunct2, THEN conjunct1]
  then show "validateInteractiveButtons fourButtons
      = Inl (InteractiveButtonCountOutOfRange MoreThanThree)"
    by (simp add: fourButtons_def yesNo_def)
next
  note c = interactive_buttons [of sameIds "askWith []" DuplicateButtonId "[]",
      THEN conjunct2, THEN conjunct2, THEN conjunct2, THEN conjunct1]
  then show d: "validateInteractiveButtons sameIds = Inl DuplicateButtonId"
    by (simp add: sameIds_def)
  note s = interactive_buttons [of "[]" "askWith sameIds" DuplicateButtonId "''14155550100''",
      THEN conjunct2, THEN conjunct2, THEN conjunct2, THEN conjunct2, THEN conjunct2]
  with d show "sendInteractiveMessage ''14155550100'' (askWith sameIds) = Inl DuplicateButtonId"
    by (simp add: askWith_def)
next
  note c = interactive_buttons [of sameTitles "askWith []" DuplicateButtonId "[]",
      THEN conjunct2, THEN conjunct2, THEN conjunct2, THEN conjunct2, THEN conjunct1]
  then show "validateInteractiveButtons sameTitles = Inl DuplicateButtonTitle"
    by (simp add: sameTitles_def)
qed


section \<open>Content locators of media messages\<close>

lemma sendMessage_valid:
  "validatePhoneNumber (message_from m) \<Longrightarrow> validatePhoneNumber (message_to m) \<Longrightarrow>
   sendMessage m =
     (let formattedMessage =
              [(''from'', JStr (message_from m)),
               (''To'', JStr (message_to m)),
               (''type'', JStr (messageType (content m)))]
      in case content m of
          TextMessage t \<Rightarrow>
            Inr (JObj (formattedMessage @
              [(''text'', JObj [(''body'', JStr (text_body t)),
                                (''preview_url'',
                                 JBool (case preview_url t of None \<Rightarrow> False | Some b \<Rightarrow> b))])]))
        | ImageMessage i \<Rightarrow>
            (if truthy (image_link i)
               then Inr (JObj (formattedMessage @
                      [(''image'', JObj [(''caption'', optional (image_caption i)),
                                         (''link'', optional (image_link i))])]))
             else if truthy (image_id i)
               then Inr (JObj (formattedMessage @
                      [(''image'', JObj [(''caption'', optional (image_caption i)),
                                         (''id'', optional (image_id i))])]))
             else Inl (MissingContentLocator image))
        | DocumentMessage d \<Rightarrow>
            (if truthy (document_link d)
               then Inr (JObj (formattedMessage @
                      [(''document'', JObj [(''filename'', JStr (document_filename d)),
                                            (''caption'', optional (document_caption d)),
                                            (''link'', optional (document_link d))])]))
             else if truthy (document_id d)
               then Inr (JObj (formattedMessage @
                      [(''document'', JObj [(''filename'', JStr (document_filename d)),
                                            (''caption'', optional (document_caption d)),
                                            (''id'', optional (document_id d))])]))
             else Inl (MissingContentLocator document))
        | VideoMessage v \<Rightarrow>
            (if truthy (video_link v)
               then Inr (JObj (formattedMessage @
                      [(''video'', JObj [(''caption'', JStr (video_caption v)),
                                         (''link'', optional (video_link v))])]))
             else if truthy (video_id v)
               then Inr (JObj (formattedMessage @
                      [(''video'', JObj [(''caption'', JStr (video_caption v)),
                                         (''id'', optional (video_id v))])]))
             else Inl (MissingContentLocator video))
        | AudioMessage a \<Rightarrow>
            (if truthy (audio_link a)
               then Inr (JObj (formattedMessage @ [(''audio'', JObj [(''link'', optional (audio_link a))])]))
             else if truthy (audio_id a)
               then Inr (JObj (formattedMessage @ [(''audio'', JObj [(''id'', optional (audio_id a))])]))
             else Inl (MissingContentLocator audio))
        | InteractiveMessage interactive \<Rightarrow>
            Inr (JObj (formattedMessage @ [(''interactive'', interactive)])))"
  by (simp add: sendMessage_def Let_def split: MessageContent.split)

text \<open>
  An image message with both a link and an id is not refused: it is posted with
  the link alone.
\<close>

theorem content_locator_counterexample:
  "sendMessage (imageMessage (Some ''https://example.com/a.png'') (Some ''media-1'')) =
     Inr (JObj [(''from'', JStr ''14155550100''),
                (''To'', JStr ''14155552671''),
                (''type'', JStr ''image''),
                (''image'', JObj [(''caption'', JUndefined),
                                  (''link'', JStr ''https://example.com/a.png'')])])"
  using valid_sender valid_recipient
  by (simp add: sendMessage_valid imageMessage_def truthy_def optional_def)

text \<open>
  C2 (amended).  For every media message (image, document, video, audio) whose sender
  and recipient pass the phone-number check, a locator counting as set when it is
  a non-empty string: with the link set the message is posted with \<open>link\<close> and
  without \<open>id\<close>, whether or not the id is set too; with only the id set it is
  posted with \<open>id\<close> and without \<open>link\<close>; with neither set it fails with
  \<open>MissingContentLocator\<close> and nothing is posted.
\<close>

theorem content_locator:
  assumes "validatePhoneNumber (message_from m)" and "validatePhoneNumber (message_to m)"
    and "mediaLocators (content m) = Some (t, l, i)"
  shows
   "(truthy l \<longrightarrow>
       (\<exists>wire obj. sendMessage m = Inr wire \<and>
          property (messageType (content m)) wire = Some obj \<and>
          property ''link'' obj = Some (optional l) \<and> property ''id'' obj = None)) \<and>
    (\<not> truthy l \<and> truthy i \<longrightarrow>
       (\<exists>wire obj. sendMessage m = Inr wire \<and>
          property (messageType (content m)) wire = Some obj \<and>
          property ''id'' obj = Some (optional i) \<and> property ''link'' obj = None)) \<and>
    (\<not> truthy l \<and> \<not> truthy i \<longrightarrow> sendMessage m = Inl (MissingContentLocator t))"
proof (cases "content m")
  case (ImageMessage x)
  with assms show ?thesis
    by (simp add: sendMessage_valid property_def)
next
  case (DocumentMessage x)
  with assms show ?thesis
    by (simp add: sendMessage_valid property_def)
next
  case (VideoMessage x)
  with assms show ?thesis
    by (simp add: sendMessage_valid property_def)
next
  case (AudioMessage x)
  with assms show ?thesis
    by (simp add: sendMessage_valid property_def)
next
  case (TextMessage x)
  with assms(3) show ?thesis by simp
next
  case (InteractiveMessage x)
  with assms(3) show ?thesis by simp
qed

theorem content_locator_witness:
  "(\<exists>wire obj. sendMessage (imageMessage (Some ''https://example.com/a.png'') (Some ''media-1''))
        = Inr wire \<and>
      property ''image'' wire = Some obj \<and>
      property ''link'' obj = Some (JStr ''https://example.com/a.png'') \<and>
      property ''id'' obj = None) \<and>
   (\<exists>wire obj. sendMessage (audioMessage None (Some ''media-1'')) = Inr wire \<and>
      property ''audio'' wire = Some obj \<and>
      property ''id'' obj = Some (JStr ''media-1'') \<and>
      property ''link'' obj = None) \<and>
   sendMessage (imageMessage None None) = Inl (MissingContentLocator image)"
proof (intro conjI)
  let ?both = "imageMessage (Some ''https://example.com/a.png'') (Some ''media-1'')"
  have "validatePhoneNumber (message_from ?both)" and "validatePhoneNumber (message_to ?both)"
    and "mediaLocators (content ?both)
           = Some (image, Some ''https://example.com/a.png'', Some ''media-1'')"
    using valid_sender valid_recipient by (simp_all add: imageMessage_def)
  from content_locator [OF this, THEN conjunct1]
  show "\<exists>wire obj. sendMessage ?both = Inr wire \<and>
      property ''image'' wire = Some obj \<and>
      property ''link'' obj = Some (JStr ''https://example.com/a.png'') \<and>
      property ''id'' obj = None"
    by (simp add: truthy_def optional_def imageMessage_def)
next
  let ?by_id = "audioMessage None (Some ''media-1'')"
  have "validatePhoneNumber (message_from ?by_id)" and "validatePhoneNumber (message_to ?by_id)"
    and "mediaLocators (content ?by_id) = Some (audio, None, Some ''media-1'')"
    using valid_sender valid_recipient by (simp_all add: audioMessage_def)
  from content_locator [OF this, THEN conjunct2, THEN conjunct1]
  show "\<exists>wire obj. sendMessage ?by_id = Inr wire \<and>
      property ''audio'' wire = Some obj \<and>
      property ''id'' obj = Some (JStr ''media-1'') \<and>
      property ''link'' obj = None"
    by (simp add: truthy_def optional_def audioMessage_def)
next
  let ?none = "imageMessage None None"
  have "validatePhoneNumber (message_from ?none)" and "validatePhoneNumber (message_to ?none)"
    and "mediaLocators (content ?none) = Some (image, None, None)"
    using valid_sender valid_recipient by (simp_all add: imageMessage_def)
  from content_locator [OF this, THEN conjunct2, THEN conjunct2]
  show "sendMessage ?none = Inl (MissingContentLocator image)"
    by (simp add: truthy_def)
qed

end
